theory Spec2Isabelle
  imports Complex_Main "HOL-Library.AList"
begin

section \<open>Text primitives of the host language\<close>

text \<open>
  A Python \<open>str\<close> is a sequence of code points. The model uses \<^typ>\<open>string\<close> and reads
  each \<^typ>\<open>char\<close> as the code point of the same number, so it covers the texts over
  U+0000..U+00FF (Latin-1, which holds every letter of Portuguese). On that range
  \<open>str.lower\<close>, \<open>str.strip\<close> and the class \<open>\w\<close> of \<open>re\<close> are as defined below.
\<close>

definition ponto :: "char \<Rightarrow> nat" where
  "ponto c = of_char c"

text \<open>\<open>str.lower\<close>: A..Z and the capital letters U+00C0..U+00DE (without the sign U+00D7)
  move up by 32; every other code point of the range is its own lower case.\<close>

definition lower_char :: "char \<Rightarrow> char" where
  "lower_char c =
     (let n = ponto c in
      if (65 \<le> n \<and> n \<le> 90) \<or> (192 \<le> n \<and> n \<le> 222 \<and> n \<noteq> 215)
      then char_of (n + 32) else c)"

definition lower :: "string \<Rightarrow> string" where
  "lower s = map lower_char s"

text \<open>\<open>str.strip()\<close> removes the white space at both ends: TAB..CR, FS..US, the space,
  NEL (U+0085) and the no-break space (U+00A0).\<close>

definition isspace :: "char \<Rightarrow> bool" where
  "isspace c =
     (let n = ponto c in
      (9 \<le> n \<and> n \<le> 13) \<or> (28 \<le> n \<and> n \<le> 32) \<or> n = 133 \<or> n = 160)"

definition strip :: "string \<Rightarrow> string" where
  "strip s = rev (dropWhile isspace (rev (dropWhile isspace s)))"

text \<open>The class \<open>\w\<close> of a \<open>str\<close> pattern: the alphanumeric code points and the underscore.\<close>

definition palavra_char :: "char \<Rightarrow> bool" where
  "palavra_char c =
     (let n = ponto c in
      (48 \<le> n \<and> n \<le> 57) \<or> (65 \<le> n \<and> n \<le> 90) \<or> n = 95 \<or> (97 \<le> n \<and> n \<le> 122)
      \<or> n = 170 \<or> n = 178 \<or> n = 179 \<or> n = 181 \<or> n = 185 \<or> n = 186
      \<or> (188 \<le> n \<and> n \<le> 190)
      \<or> (192 \<le> n \<and> n \<le> 214) \<or> (216 \<le> n \<and> n \<le> 246) \<or> (248 \<le> n \<and> n \<le> 255))"

text \<open>\<open>re.findall(r'\w+', s)\<close>: the maximal runs of word characters, left to right.
  The first argument is the run being read.\<close>

fun findall_w :: "string \<Rightarrow> string \<Rightarrow> string list" where
  "findall_w run [] = (if run = [] then [] else [run])"
| "findall_w run (c # cs) =
     (if palavra_char c then findall_w (run @ [c]) cs
      else (if run = [] then [] else [run]) @ findall_w [] cs)"

definition palavras :: "string \<Rightarrow> string set" where
  "palavras s = set (findall_w [] s)"

text \<open>\<open>a in b\<close> on strings: \<open>a\<close> occurs in \<open>b\<close> as a contiguous substring.\<close>

fun comeca_com :: "string \<Rightarrow> string \<Rightarrow> bool" where
  "comeca_com [] s = True"
| "comeca_com (a # as) [] = False"
| "comeca_com (a # as) (c # cs) = (a = c \<and> comeca_com as cs)"

fun contido :: "string \<Rightarrow> string \<Rightarrow> bool" where
  "contido a [] = (a = [])"
| "contido a (c # cs) = (comeca_com a (c # cs) \<or> contido a cs)"

text \<open>\<open>s.split(sep)\<close> for a separator of one character: every occurrence cuts, and empty
  pieces are kept.\<close>

fun split_char :: "char \<Rightarrow> string \<Rightarrow> string \<Rightarrow> string list" where
  "split_char sep parte [] = [parte]"
| "split_char sep parte (c # cs) =
     (if c = sep then parte # split_char sep [] cs else split_char sep (parte @ [c]) cs)"

text \<open>\<open>str(n)\<close> of an integer, as an f-string writes it.\<close>

function digitos :: "nat \<Rightarrow> string" where
  "digitos n =
     (if n < 10 then [char_of (48 + n)]
      else digitos (n div 10) @ [char_of (48 + n mod 10)])"
  by pat_completeness auto
termination
  by (relation "measure id") auto

definition str_int :: "int \<Rightarrow> string" where
  "str_int i = (if i < 0 then CHR ''-'' # digitos (nat (- i)) else digitos (nat i))"

section \<open>Data of \<open>IASimples\<close>\<close>

text \<open>The value of a key of \<open>conhecimento\<close>: the dictionary built by
  \<open>adicionar_conhecimento\<close>.\<close>

record info =
  resposta :: string
  data_adicao :: string

text \<open>An element of the list kept under a key of \<open>respostas\<close>. The scores the program
  writes are 1, -0.5 and their sums; they are exact in the host's numbers and are
  rationals here.\<close>

record candidata =
  texto :: string
  pontuacao :: rat

text \<open>The JSON object that \<open>_registrar_conversa\<close> writes into a file of the directory of
  conversations.\<close>

record conversa =
  conv_user_id :: int
  conv_timestamp :: string
  conv_pergunta :: string
  conv_resposta :: string

text \<open>A row of the table \<open>feedback\<close>.\<close>

record linha_feedback =
  mensagem_id :: string
  fb_user_id :: int
  tipo_feedback :: string

text \<open>The dictionary \<open>estatisticas\<close>.\<close>

record contadores =
  interacoes :: int
  feedback_positivo :: int
  feedback_negativo :: int
  ultima_atualizacao :: string

text \<open>
  The state of an \<open>IASimples\<close> together with the stores it reads back. A Python \<open>dict\<close>
  keeps its keys in insertion order, so the two dictionaries are association lists:
  \<^const>\<open>map_of\<close> reads a key, \<^const>\<open>AList.update\<close> writes one (in place when the key is
  there, at the end otherwise). \<open>conversas\<close> is the directory \<open>CONVERSAS_DIR\<close> in the order
  \<open>os.listdir\<close> gives its files; the content of a file is \<open>None\<close> when it cannot be opened
  or parsed; a file written anew is listed last, though the program does not decide its
  place and no property below depends on it. \<open>feedback_db\<close> holds the rows of the table
  \<open>feedback\<close>. The attribute \<open>feedback\<close>, loaded at start, is never used. The JSON copies of the
  dictionaries on disk are written after each change and never read again by a running
  instance, so the state in memory stands for them.
\<close>

record ia_simples =
  conhecimento :: "(string \<times> info) list"
  respostas :: "(string \<times> candidata list) list"
  estatisticas :: contadores
  feedback_db :: "linha_feedback list"
  conversas :: "(string \<times> conversa option) list"

text \<open>
  What a call takes from outside the program: the transliteration of the library
  \<open>unidecode\<close>, the answer to the HTTP request of \<open>buscar_na_wikipedia\<close> (\<open>None\<close> when the
  request or the parsing of its body raises, otherwise the status code and the field
  \<open>extract\<close> of the body when it has one), the two readings of the clock (as
  \<open>processar_mensagem\<close> and \<open>_registrar_conversa\<close> format them) and the draw of
  \<open>random.choice\<close>, a number that is reduced to an index of the pool.
\<close>

record ambiente =
  unidecode :: "string \<Rightarrow> string"
  http_get :: "string \<Rightarrow> (nat \<times> string option) option"
  agora :: string
  carimbo :: string
  sorteio :: nat

text \<open>The pool \<open>respostas_padrao\<close> (lines 57 to 63).\<close>

definition respostas_padrao :: "string list" where
  "respostas_padrao =
     [''Ainda estou aprendendo sobre isso.'',
      ''N'' @ [CHR 0xE3] @ ''o tenho conhecimento suficiente para responder.'',
      ''Poderia me ensinar mais sobre esse assunto?'',
      ''N'' @ [CHR 0xE3] @ ''o entendi bem. Pode explicar de outra forma?'',
      ''Estou processando esse tema ainda, me desculpe.'']"

section \<open>Answering a message\<close>

text \<open>\<open>buscar_na_wikipedia\<close> (lines 115 to 127): the extract when the status is 200 and
  the extract is there and not empty, \<open>None\<close> otherwise and on every exception.\<close>

definition buscar_na_wikipedia :: "ambiente \<Rightarrow> string \<Rightarrow> string option" where
  "buscar_na_wikipedia env pergunta =
     (case http_get env pergunta of
        None \<Rightarrow> None
      | Some (status_code, extract) \<Rightarrow>
          if status_code = 200 then
            (case extract of
               None \<Rightarrow> None
             | Some e \<Rightarrow> if e \<noteq> [] then Some e else None)
          else None)"

text \<open>Line 132 of \<open>processar_mensagem\<close>.\<close>

definition texto_normalizado :: "ambiente \<Rightarrow> string \<Rightarrow> string" where
  "texto_normalizado env t = unidecode env (strip (lower t))"

text \<open>The size of the intersection of the two sets of words, as the loop over
  \<open>conhecimento\<close> computes it for one key (lines 145 to 149): the words of the key in
  lower case, and the words of the normalised text.\<close>

definition correspondencia :: "string \<Rightarrow> string \<Rightarrow> nat" where
  "correspondencia padrao tn = card (palavras (lower padrao) \<inter> palavras tn)"

text \<open>The loop over \<open>conhecimento.items()\<close> (lines 140 to 154); the pair is
  \<open>(max_correspondencia, resposta)\<close>, at first \<open>(0, None)\<close>.\<close>

fun busca_conhecimento ::
  "string \<Rightarrow> (string \<times> info) list \<Rightarrow> nat \<times> string option \<Rightarrow> nat \<times> string option" where
  "busca_conhecimento tn [] acc = acc"
| "busca_conhecimento tn ((padrao, dado) # kb) (max_correspondencia, r) =
     (let c = correspondencia padrao tn in
      if c > 0 \<and> c > max_correspondencia
      then busca_conhecimento tn kb (c, Some (resposta dado))
      else busca_conhecimento tn kb (max_correspondencia, r))"

definition resposta_conhecimento :: "string \<Rightarrow> (string \<times> info) list \<Rightarrow> string option" where
  "resposta_conhecimento tn kb = snd (busca_conhecimento tn kb (0, None))"

text \<open>\<open>max(xs, key=lambda x: x["pontuacao"])\<close> on a list that is not empty: the first
  argument is the best element so far, replaced only by a strictly greater score.\<close>

fun max_pontuacao :: "candidata \<Rightarrow> candidata list \<Rightarrow> candidata" where
  "max_pontuacao m [] = m"
| "max_pontuacao m (x # xs) =
     (if pontuacao x > pontuacao m then max_pontuacao x xs else max_pontuacao m xs)"

text \<open>The test of line 159, and the loop over \<open>respostas.items()\<close> (lines 158 to 163);
  \<open>None\<close> when the loop ends without the \<open>break\<close>.\<close>

definition casa :: "string \<Rightarrow> string \<Rightarrow> bool" where
  "casa padrao tn = (contido padrao tn \<or> contido tn padrao)"

fun busca_respostas :: "string \<Rightarrow> (string \<times> candidata list) list \<Rightarrow> string option" where
  "busca_respostas tn [] = None"
| "busca_respostas tn ((padrao, respostas_possiveis) # rs) =
     (if casa padrao tn then
        (case respostas_possiveis of
           [] \<Rightarrow> busca_respostas tn rs
         | x # xs \<Rightarrow> Some (texto (max_pontuacao x xs)))
      else busca_respostas tn rs)"

text \<open>\<open>not resposta\<close>: true of \<open>None\<close> and of the empty string.\<close>

definition nao :: "string option \<Rightarrow> bool" where
  "nao r = (case r of None \<Rightarrow> True | Some t \<Rightarrow> t = [])"

text \<open>\<open>_registrar_conversa\<close> (lines 187 to 199).\<close>

definition registrar_conversa ::
  "ambiente \<Rightarrow> string \<Rightarrow> string \<Rightarrow> int \<Rightarrow> ia_simples \<Rightarrow> ia_simples" where
  "registrar_conversa env pergunta resp uid s =
     (let ts = carimbo env;
          arquivo = ''conversa_'' @ str_int uid @ ''_'' @ ts @ ''.json'';
          dados = \<lparr>conv_user_id = uid, conv_timestamp = ts,
                   conv_pergunta = pergunta, conv_resposta = resp\<rparr>
      in s\<lparr>conversas := AList.update arquivo (Some dados) (conversas s)\<rparr>)"

text \<open>The reply chosen by \<open>processar_mensagem\<close>, stage after stage (lines 139 to 171):
  \<open>r1\<close>, \<open>r2\<close> and \<open>r3\<close> are the variable \<open>resposta\<close> after the knowledge base, after
  the learned replies and after the lookup. \<open>processar_mensagem\<close> itself counts the
  interaction first and records the conversation last.\<close>

definition escolher_resposta :: "ambiente \<Rightarrow> string \<Rightarrow> ia_simples \<Rightarrow> string" where
  "escolher_resposta env t s =
     (let tn = texto_normalizado env t;
          r1 = resposta_conhecimento tn (conhecimento s);
          r2 = (if nao r1 then
                  (case busca_respostas tn (respostas s) of None \<Rightarrow> r1 | Some x \<Rightarrow> Some x)
                else r1);
          r3 = (if nao r2 then buscar_na_wikipedia env t else r2)
      in case r3 of
           None \<Rightarrow> respostas_padrao ! (sorteio env mod length respostas_padrao)
         | Some x \<Rightarrow>
             if x = [] then respostas_padrao ! (sorteio env mod length respostas_padrao)
             else x)"

definition processar_mensagem ::
  "ambiente \<Rightarrow> string \<Rightarrow> int \<Rightarrow> ia_simples \<Rightarrow> string \<times> ia_simples" where
  "processar_mensagem env t uid s =
     (let s1 = s\<lparr>estatisticas := (estatisticas s)
                     \<lparr>interacoes := interacoes (estatisticas s) + 1,
                      ultima_atualizacao := agora env\<rparr>\<rparr>;
          r = escolher_resposta env t s1
      in (r, registrar_conversa env t r uid s1))"

section \<open>Teaching and feedback\<close>

text \<open>\<open>adicionar_conhecimento\<close> (lines 179 to 185) and \<open>registrar_feedback\<close> (lines 201
  to 207).\<close>

definition adicionar_conhecimento ::
  "ambiente \<Rightarrow> string \<Rightarrow> string \<Rightarrow> ia_simples \<Rightarrow> ia_simples" where
  "adicionar_conhecimento env pergunta resp s =
     s\<lparr>conhecimento :=
         AList.update pergunta \<lparr>resposta = resp, data_adicao = agora env\<rparr> (conhecimento s)\<rparr>"

definition registrar_feedback :: "string \<Rightarrow> int \<Rightarrow> string \<Rightarrow> ia_simples \<Rightarrow> ia_simples" where
  "registrar_feedback mid uid tipo s =
     s\<lparr>feedback_db := feedback_db s @
         [\<lparr>mensagem_id = mid, fb_user_id = uid, tipo_feedback = tipo\<rparr>]\<rparr>"

text \<open>The loop of \<open>_aprender_com_feedback\<close> over the list of a key (lines 234 to 243):
  the first item with the text gets the new score and the loop stops; the flag is
  \<open>resposta_existente\<close>. Then the append of lines 246 to 251.\<close>

fun atualizar_pontuacao ::
  "string \<Rightarrow> string \<Rightarrow> candidata list \<Rightarrow> candidata list \<times> bool" where
  "atualizar_pontuacao resp tipo [] = ([], False)"
| "atualizar_pontuacao resp tipo (item # itens) =
     (if texto item = resp then
        ((if tipo = ''positivo'' then item\<lparr>pontuacao := pontuacao item + 1\<rparr>
          else item\<lparr>pontuacao := pontuacao item - 1 / 2\<rparr>) # itens, True)
      else (case atualizar_pontuacao resp tipo itens of
              (itens', existente) \<Rightarrow> (item # itens', existente)))"

definition aprender_lista :: "string \<Rightarrow> string \<Rightarrow> candidata list \<Rightarrow> candidata list" where
  "aprender_lista resp tipo itens =
     (case atualizar_pontuacao resp tipo itens of
        (itens', resposta_existente) \<Rightarrow>
          if \<not> resposta_existente then
            itens' @ [\<lparr>texto = resp,
                       pontuacao = (if tipo = ''positivo'' then 1 else - (1 / 2))\<rparr>]
          else itens')"

text \<open>\<open>_aprender_com_feedback\<close> (lines 209 to 257). The key of \<open>respostas\<close> is the
  question of the conversation after \<open>lower()\<close> and \<open>strip()\<close> (line 226). The first file
  whose name contains the identifier is the conversation; without one the function
  returns, and a file that cannot be read ends in the \<open>except\<close> branch. Both leave the
  state as it was.\<close>

definition chave_aprendida :: "conversa \<Rightarrow> string" where
  "chave_aprendida c = strip (lower (conv_pergunta c))"

definition aprender_com_feedback :: "string \<Rightarrow> string \<Rightarrow> ia_simples \<Rightarrow> ia_simples" where
  "aprender_com_feedback mid tipo s =
     (case find (\<lambda>(arquivo, conteudo). contido mid arquivo) (conversas s) of
        None \<Rightarrow> s
      | Some (arquivo, conteudo) \<Rightarrow>
          (case conteudo of
             None \<Rightarrow> s
           | Some c \<Rightarrow>
               let pergunta = chave_aprendida c;
                   rs = (if pergunta \<notin> fst ` set (respostas s)
                         then AList.update pergunta [] (respostas s) else respostas s);
                   itens = (case map_of rs pergunta of None \<Rightarrow> [] | Some l \<Rightarrow> l)
               in s\<lparr>respostas :=
                     AList.update pergunta (aprender_lista (conv_resposta c) tipo itens) rs\<rparr>))"

text \<open>The handler of the buttons, \<open>processar_feedback\<close> (lines 338 to 356), on the state
  of the instance; the edits of the message on the screen belong to the transport.\<close>

definition processar_feedback :: "string \<Rightarrow> int \<Rightarrow> ia_simples \<Rightarrow> ia_simples" where
  "processar_feedback dados uid s =
     (let partes = split_char CHR ''_'' [] dados in
      if length partes \<ge> 3 then registrar_feedback (partes ! 2) uid (partes ! 1) s
      else s)"

text \<open>
  The calls that reach an instance: a message, a lesson (the call of
  \<open>adicionar_conhecimento\<close> that \<open>/ensinar\<close> makes), a press on a feedback button, and
  the learning step, which is part of the class although no handler calls it.
\<close>

datatype evento =
  Mensagem ambiente string int
| Ensino ambiente string string
| Botao string int
| Aprendizado string string

fun executar :: "evento \<Rightarrow> ia_simples \<Rightarrow> ia_simples" where
  "executar (Mensagem env t uid) s = snd (processar_mensagem env t uid s)"
| "executar (Ensino env pergunta resp) s = adicionar_conhecimento env pergunta resp s"
| "executar (Botao dados uid) s = processar_feedback dados uid s"
| "executar (Aprendizado mid tipo) s = aprender_com_feedback mid tipo s"

section \<open>Readings of the learned replies\<close>

text \<open>
  The list \<open>respostas[k]\<close> (empty when the key is absent), the score of the first reply
  with a given text in it, the invariant that keys are unique and that no text occurs
  twice under a key, and the change of score that a kind of feedback brings.
\<close>

definition candidatas :: "ia_simples \<Rightarrow> string \<Rightarrow> candidata list" where
  "candidatas s k = (case map_of (respostas s) k of None \<Rightarrow> [] | Some l \<Rightarrow> l)"

definition pontuacao_de :: "ia_simples \<Rightarrow> string \<Rightarrow> string \<Rightarrow> rat option" where
  "pontuacao_de s k t = map_option pontuacao (find (\<lambda>x. texto x = t) (candidatas s k))"

definition respostas_sem_repeticao :: "ia_simples \<Rightarrow> bool" where
  "respostas_sem_repeticao s =
     (distinct (map fst (respostas s))
      \<and> (\<forall>(k, l) \<in> set (respostas s). distinct (map texto l)))"

abbreviation variacao :: "string \<Rightarrow> rat" where
  "variacao tipo \<equiv> (if tipo = ''positivo'' then 1 else - (1 / 2))"

section \<open>Example data\<close>

text \<open>An environment where the transliteration changes nothing, the request fails and
  the draw is the first default reply; an instance that has seen nothing; and the same
  after the message \<open>Oi\<close> of user 7.\<close>

definition env_exemplo :: ambiente where
  "env_exemplo =
     \<lparr>unidecode = (\<lambda>s. s), http_get = (\<lambda>p. None),
      agora = ''2024-01-01 12:00:00'', carimbo = ''20240101120000'', sorteio = 0\<rparr>"

definition ia_vazia :: ia_simples where
  "ia_vazia =
     \<lparr>conhecimento = [], respostas = [],
      estatisticas = \<lparr>interacoes = 0, feedback_positivo = 0, feedback_negativo = 0,
                      ultima_atualizacao = []\<rparr>,
      feedback_db = [], conversas = []\<rparr>"

definition ia_uma_conversa :: ia_simples where
  "ia_uma_conversa = snd (processar_mensagem env_exemplo ''Oi'' 7 ia_vazia)"

text \<open>A knowledge base of three entries.\<close>

definition kb_exemplo :: "(string \<times> info) list" where
  "kb_exemplo =
     [(''Bom'', \<lparr>resposta = ''R1'', data_adicao = ''2024-01-01 12:00:00''\<rparr>),
      (''Bom dia'', \<lparr>resposta = ''R2'', data_adicao = ''2024-01-01 12:00:00''\<rparr>),
      (''Dia bom'', \<lparr>resposta = ''R3'', data_adicao = ''2024-01-01 12:00:00''\<rparr>)]"

text \<open>Learned replies: the pattern \<open>oi\<close> with two replies of scores 2 and 5; and a
  dictionary whose first pattern has an empty list.\<close>

definition aprendidas_exemplo :: "(string \<times> candidata list) list" where
  "aprendidas_exemplo =
     [(''oi'', [\<lparr>texto = ''ola'', pontuacao = 2\<rparr>, \<lparr>texto = ''oi tudo bem'', pontuacao = 5\<rparr>])]"

definition aprendidas_lista_vazia :: "(string \<times> candidata list) list" where
  "aprendidas_lista_vazia =
     [(''oi'', []), (''oi tudo'', [\<lparr>texto = ''tudo bem?'', pontuacao = 1\<rparr>])]"

text \<open>
  A transliteration for the examples. It agrees with the library \<open>unidecode\<close> on ASCII,
  which the library leaves as it is, and on the letters U+00C0..U+00FF, which lose their
  accent. The library's entries for the controls and signs U+0080..U+00BF are not
  reproduced: this instance drops those code points, and no example contains one.
\<close>

definition tabela_letras :: "string list" where
  "tabela_letras =
     [''A'', ''A'', ''A'', ''A'', ''A'', ''A'', ''AE'', ''C'',
      ''E'', ''E'', ''E'', ''E'', ''I'', ''I'', ''I'', ''I'',
      ''D'', ''N'', ''O'', ''O'', ''O'', ''O'', ''O'', ''x'',
      ''O'', ''U'', ''U'', ''U'', ''U'', ''Y'', ''Th'', ''ss'',
      ''a'', ''a'', ''a'', ''a'', ''a'', ''a'', ''ae'', ''c'',
      ''e'', ''e'', ''e'', ''e'', ''i'', ''i'', ''i'', ''i'',
      ''d'', ''n'', ''o'', ''o'', ''o'', ''o'', ''o'', ''/'',
      ''o'', ''u'', ''u'', ''u'', ''u'', ''y'', ''th'', ''y'']"

definition unidecode_letras :: "string \<Rightarrow> string" where
  "unidecode_letras s =
     concat (map (\<lambda>c. let n = ponto c in
                       if n < 128 then [c]
                       else if n < 192 then []
                       else tabela_letras ! (n - 192)) s)"

definition env_letras :: ambiente where
  "env_letras = env_exemplo\<lparr>unidecode := unidecode_letras\<rparr>"

text \<open>An instance whose only curated entry has the empty reply, as
  \<open>/ensinar oi |\<close> leaves it, beside the learned replies of the example.\<close>

definition ia_resposta_vazia :: ia_simples where
  "ia_resposta_vazia =
     ia_vazia\<lparr>conhecimento := [(''oi'', \<lparr>resposta = [], data_adicao = ''2024-01-01 12:00:00''\<rparr>)],
              respostas := aprendidas_exemplo\<rparr>"

text \<open>The question of the example: \<open>qual\<close>, the letter U+00E9, \<open>a sua linguagem favorita\<close>.\<close>

definition pergunta_exemplo :: string where
  "pergunta_exemplo = ''qual '' @ [CHR 0xE9] @ '' a sua linguagem favorita''"

text \<open>The instance after the message \<open>Oi\<close>, holding the reply it gave as a learned reply
  of score 1.\<close>

definition ia_com_candidata :: ia_simples where
  "ia_com_candidata =
     ia_uma_conversa\<lparr>respostas :=
       [(''oi'', [\<lparr>texto = ''Ainda estou aprendendo sobre isso.'', pontuacao = 1\<rparr>])]\<rparr>"

text \<open>Calls on the instance of the example: the learning step for its conversation, the
  same message again, a press on the negative button, and two more learning steps.\<close>

definition eventos_exemplo :: "evento list" where
  "eventos_exemplo =
     [Aprendizado ''12'' ''positivo'', Mensagem env_exemplo ''Oi'' 7,
      Botao ''feedback_negativo_12'' 7, Aprendizado ''12'' ''negativo'',
      Aprendizado ''12'' ''positivo'']"

text \<open>The question \<open>Ol\<close> followed by U+00E1, and the instance that answered it and then
  learned from positive feedback for that conversation.\<close>

definition pergunta_ola :: string where
  "pergunta_ola = ''Ol'' @ [CHR 0xE1]"

definition ia_ola :: ia_simples where
  "ia_ola = aprender_com_feedback ''12'' ''positivo''
              (snd (processar_mensagem env_letras pergunta_ola 7 ia_vazia))"

section \<open>Substrings\<close>

lemma comeca_com_iff: "comeca_com a s \<longleftrightarrow> (\<exists>q. s = a @ q)"
  by (induction a s rule: comeca_com.induct) auto

lemma contido_iff: "contido a b \<longleftrightarrow> (\<exists>p q. b = p @ a @ q)"
proof (induction b)
  case Nil
  then show ?case by simp
next
  case (Cons c cs)
  show ?case
  proof
    assume "contido a (c # cs)"
    then consider "comeca_com a (c # cs)" | "contido a cs" by auto
    then show "\<exists>p q. c # cs = p @ a @ q"
    proof cases
      case 1
      then obtain q where "c # cs = a @ q" by (auto simp: comeca_com_iff)
      then have "c # cs = [] @ a @ q" by simp
      then show ?thesis by blast
    next
      case 2
      then obtain p q where "cs = p @ a @ q" using Cons.IH by auto
      then have "c # cs = (c # p) @ a @ q" by simp
      then show ?thesis by blast
    qed
  next
    assume "\<exists>p q. c # cs = p @ a @ q"
    then obtain p q where pq: "c # cs = p @ a @ q" by auto
    show "contido a (c # cs)"
    proof (cases p)
      case Nil
      then have "comeca_com a (c # cs)" using pq by (auto simp: comeca_com_iff)
      then show ?thesis by simp
    next
      case (Cons x p')
      then have "cs = p' @ a @ q" using pq by simp
      then have "contido a cs" using Cons.IH by blast
      then show ?thesis by simp
    qed
  qed
qed

section \<open>Learning from feedback\<close>

text \<open>
  C7. When the message identifier occurs in the name of no file of the directory of
  conversations, \<open>_aprender_com_feedback\<close> returns at once: the knowledge, the learned
  replies, the feedback rows, the counters and the conversations are all as before.
\<close>

theorem aprender_id_desconhecido:
  assumes "\<forall>(arquivo, conteudo) \<in> set (conversas s). \<not> contido mid arquivo"
  shows "aprender_com_feedback mid tipo s = s"
proof -
  have "find (\<lambda>(arquivo, conteudo). contido mid arquivo) (conversas s) = None"
    using assms by (auto simp: find_None_iff)
  then show ?thesis by (simp add: aprender_com_feedback_def)
qed

text \<open>The identifier 99 is in no file name of the example, and learning changes nothing;
  the identifier 12 is in one, and learning changes the state.\<close>

theorem aprender_id_desconhecido_witness:
  "map fst (conversas ia_uma_conversa) = [''conversa_7_20240101120000.json'']
   \<and> \<not> contido ''99'' ''conversa_7_20240101120000.json''
   \<and> aprender_com_feedback ''99'' ''positivo'' ia_uma_conversa = ia_uma_conversa
   \<and> aprender_com_feedback ''12'' ''positivo'' ia_uma_conversa \<noteq> ia_uma_conversa"
proof -
  have f: "map fst (conversas ia_uma_conversa) = [''conversa_7_20240101120000.json'']"
    by code_simp
  have n: "\<not> contido ''99'' ''conversa_7_20240101120000.json''"
    by simp
  have h: "\<forall>(arquivo, conteudo) \<in> set (conversas ia_uma_conversa). \<not> contido ''99'' arquivo"
  proof -
    have "\<forall>e \<in> set (conversas ia_uma_conversa). fst e \<in> set (map fst (conversas ia_uma_conversa))"
      by simp
    then have "\<forall>e \<in> set (conversas ia_uma_conversa). fst e = ''conversa_7_20240101120000.json''"
      unfolding f by simp
    then show ?thesis using n by (auto simp del: contido.simps)
  qed
  have d: "aprender_com_feedback ''12'' ''positivo'' ia_uma_conversa \<noteq> ia_uma_conversa"
    by code_simp
  show ?thesis
    using f n d aprender_id_desconhecido [OF h, of "''positivo''"] by simp
qed

section \<open>The knowledge base\<close>

lemma busca_sem_melhor:
  "\<forall>e \<in> set kb. correspondencia (fst e) tn \<le> mx \<Longrightarrow>
   busca_conhecimento tn kb (mx, r) = (mx, r)"
  by (induction kb) (auto simp: Let_def)

lemma busca_primeiro_maximo:
  assumes "mx < correspondencia p tn"
    and "\<forall>e \<in> set pre. correspondencia (fst e) tn < correspondencia p tn"
    and "\<forall>e \<in> set post. correspondencia (fst e) tn \<le> correspondencia p tn"
  shows "busca_conhecimento tn (pre @ (p, d) # post) (mx, r) =
         (correspondencia p tn, Some (resposta d))"
  using assms
proof (induction pre arbitrary: mx r)
  case Nil
  then show ?case by (simp add: Let_def busca_sem_melhor)
next
  case (Cons e pre)
  obtain q dq where e: "e = (q, dq)" by (cases e)
  show ?case
  proof (cases "correspondencia q tn > 0 \<and> correspondencia q tn > mx")
    case True
    have "correspondencia q tn < correspondencia p tn" using Cons.prems(2) e by simp
    then have "busca_conhecimento tn (pre @ (p, d) # post) (correspondencia q tn, Some (resposta dq)) =
               (correspondencia p tn, Some (resposta d))"
      using Cons.IH Cons.prems by simp
    then show ?thesis using True e by (simp add: Let_def)
  next
    case False
    have "busca_conhecimento tn (pre @ (p, d) # post) (mx, r) =
               (correspondencia p tn, Some (resposta d))"
      using Cons.IH Cons.prems by simp
    then show ?thesis using False e by (auto simp add: Let_def)
  qed
qed

lemma existe_primeiro_maximo:
  fixes f :: "'a \<Rightarrow> nat"
  assumes "xs \<noteq> []"
  shows "\<exists>pre x post. xs = pre @ x # post \<and> (\<forall>e \<in> set pre. f e < f x) \<and> (\<forall>e \<in> set post. f e \<le> f x)"
  using assms
proof (induction xs rule: rev_induct)
  case Nil
  then show ?case by simp
next
  case (snoc y ys)
  show ?case
  proof (cases "ys = []")
    case True
    then have "ys @ [y] = [] @ y # []" by simp
    then show ?thesis by (metis empty_iff empty_set)
  next
    case False
    then obtain pre x post where s: "ys = pre @ x # post" "\<forall>e \<in> set pre. f e < f x" "\<forall>e \<in> set post. f e \<le> f x"
      using snoc.IH by blast
    show ?thesis
    proof (cases "f y \<le> f x")
      case True
      have "ys @ [y] = pre @ x # (post @ [y])" using s(1) by simp
      moreover have "\<forall>e \<in> set (post @ [y]). f e \<le> f x" using s(3) True by auto
      ultimately show ?thesis using s(2) by blast
    next
      case False
      have "ys @ [y] = ys @ y # []" by simp
      moreover have "\<forall>e \<in> set ys. f e < f y" using s False by fastforce
      ultimately show ?thesis by (metis empty_iff empty_set)
    qed
  qed
qed

text \<open>
  C2. The loop over the knowledge base returns the reply of the first entry, in the order
  of the dictionary, whose number of words in common with the normalised text is the
  greatest of all and is not zero; when every entry has no word in common it returns
  nothing, whatever the number of entries. When some entry has a word in common, such a
  first greatest entry exists.
\<close>

theorem conhecimento_melhor_correspondencia:
  "((\<forall>e \<in> set kb. correspondencia (fst e) tn = 0) \<longrightarrow> resposta_conhecimento tn kb = None)
   \<and> (\<forall>pre p d post.
         kb = pre @ (p, d) # post \<and> 0 < correspondencia p tn
         \<and> (\<forall>e \<in> set pre. correspondencia (fst e) tn < correspondencia p tn)
         \<and> (\<forall>e \<in> set post. correspondencia (fst e) tn \<le> correspondencia p tn)
         \<longrightarrow> resposta_conhecimento tn kb = Some (resposta d))
   \<and> ((\<exists>e \<in> set kb. 0 < correspondencia (fst e) tn) \<longrightarrow>
        (\<exists>pre p d post.
           kb = pre @ (p, d) # post \<and> 0 < correspondencia p tn
           \<and> (\<forall>e \<in> set pre. correspondencia (fst e) tn < correspondencia p tn)
           \<and> (\<forall>e \<in> set post. correspondencia (fst e) tn \<le> correspondencia p tn)))"
proof (intro conjI impI allI)
  assume "\<forall>e \<in> set kb. correspondencia (fst e) tn = 0"
  then have "busca_conhecimento tn kb (0, None) = (0, None)"
    by (intro busca_sem_melhor) simp
  then show "resposta_conhecimento tn kb = None"
    by (simp add: resposta_conhecimento_def)
next
  fix pre p d post
  assume a: "kb = pre @ (p, d) # post \<and> 0 < correspondencia p tn
         \<and> (\<forall>e \<in> set pre. correspondencia (fst e) tn < correspondencia p tn)
         \<and> (\<forall>e \<in> set post. correspondencia (fst e) tn \<le> correspondencia p tn)"
  then have "busca_conhecimento tn (pre @ (p, d) # post) (0, None) =
         (correspondencia p tn, Some (resposta d))"
    by (intro busca_primeiro_maximo) auto
  then show "resposta_conhecimento tn kb = Some (resposta d)"
    using a by (simp add: resposta_conhecimento_def)
next
  assume ex: "\<exists>e \<in> set kb. 0 < correspondencia (fst e) tn"
  then have "kb \<noteq> []" by auto
  from existe_primeiro_maximo [OF this, of "\<lambda>e. correspondencia (fst e) tn"]
  obtain pre x post where s: "kb = pre @ x # post"
    "\<forall>e \<in> set pre. correspondencia (fst e) tn < correspondencia (fst x) tn"
    "\<forall>e \<in> set post. correspondencia (fst e) tn \<le> correspondencia (fst x) tn"
    by blast
  obtain e where e: "e \<in> set kb" "0 < correspondencia (fst e) tn" using ex by blast
  have "correspondencia (fst e) tn \<le> correspondencia (fst x) tn"
    using e(1) s by (auto simp: less_imp_le)
  then have pos: "0 < correspondencia (fst x) tn" using e(2) by linarith
  obtain p d where x: "x = (p, d)" by (cases x)
  show "\<exists>pre p d post.
           kb = pre @ (p, d) # post \<and> 0 < correspondencia p tn
           \<and> (\<forall>e \<in> set pre. correspondencia (fst e) tn < correspondencia p tn)
           \<and> (\<forall>e \<in> set post. correspondencia (fst e) tn \<le> correspondencia p tn)"
    using s pos x by (intro exI [of _ pre] exI [of _ p] exI [of _ d] exI [of _ post]) simp
qed

text \<open>Three entries with 1, 2 and 2 words in common: the second, the first to reach 2,
  gives the reply. No word in common: no reply.\<close>

theorem conhecimento_melhor_correspondencia_witness:
  "map (\<lambda>e. correspondencia (fst e) ''bom dia'') kb_exemplo = [1, 2, 2]
   \<and> resposta_conhecimento ''bom dia'' kb_exemplo = Some ''R2''
   \<and> map (\<lambda>e. correspondencia (fst e) ''boa noite'') kb_exemplo = [0, 0, 0]
   \<and> resposta_conhecimento ''boa noite'' kb_exemplo = None"
proof -
  have c: "map (\<lambda>e. correspondencia (fst e) ''bom dia'') kb_exemplo = [1, 2, 2]"
    by code_simp
  have z: "map (\<lambda>e. correspondencia (fst e) ''boa noite'') kb_exemplo = [0, 0, 0]"
    by code_simp
  let ?d = "\<lparr>resposta = ''R2'', data_adicao = ''2024-01-01 12:00:00''\<rparr>"
  let ?pre = "[(''Bom'', \<lparr>resposta = ''R1'', data_adicao = ''2024-01-01 12:00:00''\<rparr>)]"
  let ?post = "[(''Dia bom'', \<lparr>resposta = ''R3'', data_adicao = ''2024-01-01 12:00:00''\<rparr>)]"
  have k: "kb_exemplo = ?pre @ (''Bom dia'', ?d) # ?post"
    by (simp add: kb_exemplo_def)
  have h: "0 < correspondencia ''Bom dia'' ''bom dia''
      \<and> (\<forall>e \<in> set ?pre. correspondencia (fst e) ''bom dia'' < correspondencia ''Bom dia'' ''bom dia'')
      \<and> (\<forall>e \<in> set ?post. correspondencia (fst e) ''bom dia'' \<le> correspondencia ''Bom dia'' ''bom dia'')"
    using c by (simp add: kb_exemplo_def)
  have a: "resposta_conhecimento ''bom dia'' kb_exemplo = Some (resposta ?d)"
    using conhecimento_melhor_correspondencia [of kb_exemplo "''bom dia''"] k h by blast
  have "\<forall>e \<in> set kb_exemplo. correspondencia (fst e) ''boa noite'' = 0"
    using z by (simp add: kb_exemplo_def)
  then have b: "resposta_conhecimento ''boa noite'' kb_exemplo = None"
    using conhecimento_melhor_correspondencia [of kb_exemplo "''boa noite''"] by blast
  show ?thesis using a b c z by simp
qed

section \<open>The learned replies\<close>

lemma max_pontuacao_primeiro_maximo:
  "\<exists>pre c post. m # xs = pre @ c # post \<and> max_pontuacao m xs = c
     \<and> (\<forall>y \<in> set pre. pontuacao y < pontuacao c)
     \<and> (\<forall>y \<in> set post. pontuacao y \<le> pontuacao c)"
proof (induction xs arbitrary: m)
  case Nil
  have "[m] = [] @ m # []" by simp
  then show ?case by (metis empty_iff empty_set max_pontuacao.simps(1))
next
  case (Cons x xs)
  show ?case
  proof (cases "pontuacao x > pontuacao m")
    case True
    obtain pre c post where s: "x # xs = pre @ c # post" "max_pontuacao x xs = c"
      "\<forall>y \<in> set pre. pontuacao y < pontuacao c" "\<forall>y \<in> set post. pontuacao y \<le> pontuacao c"
      using Cons.IH [of x] by blast
    have "x \<in> set (pre @ c # post)" using s(1) by (metis list.set_intros(1))
    then have "pontuacao x \<le> pontuacao c" using s(3,4) by (auto simp: less_imp_le)
    then have "\<forall>y \<in> set (m # pre). pontuacao y < pontuacao c" using True s(3) by auto
    moreover have "m # x # xs = (m # pre) @ c # post" using s(1) by simp
    moreover have "max_pontuacao m (x # xs) = c" using True s(2) by simp
    ultimately show ?thesis using s(4) by blast
  next
    case False
    obtain pre c post where s: "m # xs = pre @ c # post" "max_pontuacao m xs = c"
      "\<forall>y \<in> set pre. pontuacao y < pontuacao c" "\<forall>y \<in> set post. pontuacao y \<le> pontuacao c"
      using Cons.IH [of m] by blast
    have r: "max_pontuacao m (x # xs) = c" using False s(2) by simp
    show ?thesis
    proof (cases pre)
      case Nil
      then have "c = m" "post = xs" using s(1) by auto
      then have "m # x # xs = [] @ c # (x # post)"
        "\<forall>y \<in> set (x # post). pontuacao y \<le> pontuacao c"
        using False s(4) by auto
      then show ?thesis using r by (metis empty_iff empty_set)
    next
      case (Cons a pre')
      then have a: "a = m" "xs = pre' @ c # post" using s(1) by auto
      have "pontuacao m < pontuacao c" using s(3) Cons a by simp
      then have "\<forall>y \<in> set (m # x # pre'). pontuacao y < pontuacao c"
        using False s(3) Cons by auto
      moreover have "m # x # xs = (m # x # pre') @ c # post" using a by simp
      ultimately show ?thesis using r s(4) by blast
    qed
  qed
qed

lemma busca_respostas_salta:
  "\<forall>(p, cs) \<in> set pre. \<not> casa p tn \<or> cs = [] \<Longrightarrow>
   busca_respostas tn (pre @ rs) = busca_respostas tn rs"
  by (induction pre) (auto split: list.splits)

lemma busca_respostas_para:
  "casa p tn \<Longrightarrow> busca_respostas tn ((p, x # xs) # rs) = Some (texto (max_pontuacao x xs))"
  by simp

text \<open>
  The first pattern that contains the text, or is contained in it, need not be where the
  loop stops: here it is \<open>oi\<close>, its list is empty, and the reply comes from the second
  pattern.
\<close>

theorem aprendidas_primeiro_padrao_counterexample:
  "casa ''oi'' ''oi''
   \<and> busca_respostas ''oi''
        [(''oi'', []), (''oi tudo'', [\<lparr>texto = ''tudo bem?'', pontuacao = 1\<rparr>])]
       = Some ''tudo bem?''"
  by (simp add: casa_def)

text \<open>
  C3 (as amended). The loop over the learned patterns stops at the first pattern, in the
  order of the dictionary, that contains the normalised text or is contained in it and
  whose list of replies is not empty. It returns the text of the reply of greatest score
  in that list, the first one among equal scores, whatever patterns come after. When no
  pattern with a reply satisfies the containment it returns nothing.
\<close>

theorem aprendidas_primeiro_padrao:
  "(\<forall>pre p x xs post.
      rs = pre @ (p, x # xs) # post \<and> casa p tn
      \<and> (\<forall>(q, cs) \<in> set pre. \<not> casa q tn \<or> cs = [])
      \<longrightarrow> (\<exists>a c b. x # xs = a @ c # b
             \<and> busca_respostas tn rs = Some (texto c)
             \<and> (\<forall>y \<in> set a. pontuacao y < pontuacao c)
             \<and> (\<forall>y \<in> set b. pontuacao y \<le> pontuacao c)))
   \<and> ((\<forall>(q, cs) \<in> set rs. \<not> casa q tn \<or> cs = []) \<longrightarrow> busca_respostas tn rs = None)"
proof (intro conjI allI impI)
  fix pre p x xs post
  assume a: "rs = pre @ (p, x # xs) # post \<and> casa p tn
      \<and> (\<forall>(q, cs) \<in> set pre. \<not> casa q tn \<or> cs = [])"
  then have "busca_respostas tn rs = busca_respostas tn ((p, x # xs) # post)"
    using busca_respostas_salta [of pre tn "(p, x # xs) # post"] by simp
  then have r: "busca_respostas tn rs = Some (texto (max_pontuacao x xs))"
    using a by simp
  obtain a' c b' where "x # xs = a' @ c # b'" "max_pontuacao x xs = c"
     "\<forall>y \<in> set a'. pontuacao y < pontuacao c" "\<forall>y \<in> set b'. pontuacao y \<le> pontuacao c"
    using max_pontuacao_primeiro_maximo [of x xs] by blast
  then show "\<exists>a c b. x # xs = a @ c # b
             \<and> busca_respostas tn rs = Some (texto c)
             \<and> (\<forall>y \<in> set a. pontuacao y < pontuacao c)
             \<and> (\<forall>y \<in> set b. pontuacao y \<le> pontuacao c)"
    using r by blast
next
  assume "\<forall>(q, cs) \<in> set rs. \<not> casa q tn \<or> cs = []"
  then have "busca_respostas tn (rs @ []) = busca_respostas tn []"
    by (rule busca_respostas_salta)
  then show "busca_respostas tn rs = None" by simp
qed

text \<open>The pattern \<open>oi\<close> with the replies \<open>ola\<close> (score 2) and \<open>oi tudo bem\<close> (score 5):
  the text \<open>oi\<close> gets \<open>oi tudo bem\<close>, and the text \<open>bom dia\<close> gets nothing.\<close>

theorem aprendidas_primeiro_padrao_witness:
  "casa ''oi'' ''oi''
   \<and> (\<exists>a c b. [\<lparr>texto = ''ola'', pontuacao = 2\<rparr>, \<lparr>texto = ''oi tudo bem'', pontuacao = 5\<rparr>] = a @ c # b
         \<and> busca_respostas ''oi'' aprendidas_exemplo = Some (texto c)
         \<and> (\<forall>y \<in> set a. pontuacao y < pontuacao c)
         \<and> (\<forall>y \<in> set b. pontuacao y \<le> pontuacao c))
   \<and> busca_respostas ''oi'' aprendidas_exemplo = Some ''oi tudo bem''
   \<and> \<not> casa ''oi'' ''bom dia''
   \<and> busca_respostas ''bom dia'' aprendidas_exemplo = None"
proof -
  have c: "casa ''oi'' ''oi''" by (simp add: casa_def)
  have n: "\<not> casa ''oi'' ''bom dia''" by (simp add: casa_def)
  have k: "aprendidas_exemplo = [] @ (''oi'', \<lparr>texto = ''ola'', pontuacao = 2\<rparr> # [\<lparr>texto = ''oi tudo bem'', pontuacao = 5\<rparr>]) # []"
    by (simp add: aprendidas_exemplo_def)
  have e: "\<exists>a c b. [\<lparr>texto = ''ola'', pontuacao = 2\<rparr>, \<lparr>texto = ''oi tudo bem'', pontuacao = 5\<rparr>] = a @ c # b
         \<and> busca_respostas ''oi'' aprendidas_exemplo = Some (texto c)
         \<and> (\<forall>y \<in> set a. pontuacao y < pontuacao c)
         \<and> (\<forall>y \<in> set b. pontuacao y \<le> pontuacao c)"
    using aprendidas_primeiro_padrao [of aprendidas_exemplo "''oi''", THEN conjunct1, rule_format,
        of "[]" "''oi''" "\<lparr>texto = ''ola'', pontuacao = 2\<rparr>" "[\<lparr>texto = ''oi tudo bem'', pontuacao = 5\<rparr>]" "[]"]
      k c by simp
  have v: "busca_respostas ''oi'' aprendidas_exemplo = Some ''oi tudo bem''"
    by (simp add: aprendidas_exemplo_def casa_def)
  have "\<forall>(q, cs) \<in> set aprendidas_exemplo. \<not> casa q ''bom dia'' \<or> cs = []"
    using n by (simp add: aprendidas_exemplo_def)
  then have z: "busca_respostas ''bom dia'' aprendidas_exemplo = None"
    using aprendidas_primeiro_padrao [of aprendidas_exemplo "''bom dia''"] by blast
  show ?thesis using c e v n z by blast
qed

text \<open>
  C10. A pattern that satisfies the containment but has an empty list of replies does not
  end the loop: the scan goes on as if the pattern were absent, and a later pattern that
  satisfies the containment and has replies gives the answer.
\<close>

theorem aprendidas_lista_vazia_continua:
  "(casa p tn \<longrightarrow> busca_respostas tn ((p, []) # rs) = busca_respostas tn rs)
   \<and> (casa p tn \<and> casa q tn \<and> (\<forall>(p', cs) \<in> set meio. \<not> casa p' tn \<or> cs = [])
        \<longrightarrow> busca_respostas tn ((p, []) # meio @ (q, x # xs) # post)
             = Some (texto (max_pontuacao x xs)))"
proof (intro conjI impI)
  show "busca_respostas tn ((p, []) # rs) = busca_respostas tn rs"
    by simp
next
  assume a: "casa p tn \<and> casa q tn \<and> (\<forall>(p', cs) \<in> set meio. \<not> casa p' tn \<or> cs = [])"
  then have "busca_respostas tn (((p, []) # meio) @ (q, x # xs) # post)
             = busca_respostas tn ((q, x # xs) # post)"
    by (intro busca_respostas_salta) simp
  then show "busca_respostas tn ((p, []) # meio @ (q, x # xs) # post)
             = Some (texto (max_pontuacao x xs))"
    using a by simp
qed

text \<open>The text \<open>oi\<close> against the pattern \<open>oi\<close> without replies followed by the pattern
  \<open>oi tudo\<close> with one.\<close>

theorem aprendidas_lista_vazia_continua_witness:
  "casa ''oi'' ''oi'' \<and> casa ''oi tudo'' ''oi''
   \<and> aprendidas_lista_vazia = [(''oi'', []), (''oi tudo'', [\<lparr>texto = ''tudo bem?'', pontuacao = 1\<rparr>])]
   \<and> busca_respostas ''oi'' aprendidas_lista_vazia = Some ''tudo bem?''"
proof -
  have c: "casa ''oi'' ''oi''" "casa ''oi tudo'' ''oi''" by (simp_all add: casa_def)
  have "busca_respostas ''oi'' ((''oi'', []) # [] @ (''oi tudo'', \<lparr>texto = ''tudo bem?'', pontuacao = 1\<rparr> # []) # [])
      = Some (texto (max_pontuacao \<lparr>texto = ''tudo bem?'', pontuacao = 1\<rparr> []))"
    using aprendidas_lista_vazia_continua [of "''oi''" "''oi''" _ "''oi tudo''" "[]", THEN conjunct2] c
    by (simp del: busca_respostas.simps)
  then show ?thesis using c by (simp add: aprendidas_lista_vazia_def del: busca_respostas.simps)
qed

section \<open>The stages of a reply\<close>

lemma respostas_padrao_nao_vazia: "respostas_padrao ! (n mod length respostas_padrao) \<noteq> []"
proof -
  have "n mod length respostas_padrao < length respostas_padrao"
    by (simp add: respostas_padrao_def)
  then have "respostas_padrao ! (n mod length respostas_padrao) \<in> set respostas_padrao"
    by (rule nth_mem)
  moreover have "[] \<notin> set respostas_padrao"
    by (simp add: respostas_padrao_def)
  ultimately show ?thesis by metis
qed

lemma buscar_na_wikipedia_nao_vazia: "buscar_na_wikipedia env t \<noteq> Some []"
  by (auto simp: buscar_na_wikipedia_def split: option.splits)

lemma escolher_resposta_nao_vazia: "escolher_resposta env t s \<noteq> []"
  using respostas_padrao_nao_vazia [of "sorteio env"]
  by (auto simp: escolher_resposta_def Let_def split: option.splits)

lemma processar_mensagem_escolhe:
  "fst (processar_mensagem env t uid s) = escolher_resposta env t s"
  by (simp add: processar_mensagem_def Let_def escolher_resposta_def
      cong: if_cong option.case_cong)

lemma resposta_conhecimento_vazio: "resposta_conhecimento tn [] = None"
  by (simp add: resposta_conhecimento_def)

text \<open>
  C9. An empty reply counts as no reply at every stage of \<open>processar_mensagem\<close>. When
  the best curated entry has the empty string as reply, the answer is the one the same
  instance gives without any curated entry: the learned replies, then the lookup, then
  the default pool. When the learned stage gives the empty string, the answer is the one
  given without curated entries and without learned replies. An empty extract of the
  lookup is no result. The reply handed back is never the empty string.
\<close>

theorem resposta_vazia_e_falta:
  "(resposta_conhecimento (texto_normalizado env t) (conhecimento s) = Some [] \<longrightarrow>
      fst (processar_mensagem env t uid s)
      = fst (processar_mensagem env t uid (s\<lparr>conhecimento := []\<rparr>)))
   \<and> (nao (resposta_conhecimento (texto_normalizado env t) (conhecimento s))
      \<and> busca_respostas (texto_normalizado env t) (respostas s) = Some [] \<longrightarrow>
      fst (processar_mensagem env t uid s)
      = fst (processar_mensagem env t uid (s\<lparr>conhecimento := [], respostas := []\<rparr>)))
   \<and> (http_get env t = Some (200, Some []) \<longrightarrow> buscar_na_wikipedia env t = None)
   \<and> fst (processar_mensagem env t uid s) \<noteq> []"
proof (intro conjI impI)
  assume "resposta_conhecimento (texto_normalizado env t) (conhecimento s) = Some []"
  then show "fst (processar_mensagem env t uid s)
      = fst (processar_mensagem env t uid (s\<lparr>conhecimento := []\<rparr>))"
    by (simp add: processar_mensagem_escolhe escolher_resposta_def Let_def nao_def
        resposta_conhecimento_vazio split: option.splits)
next
  assume "nao (resposta_conhecimento (texto_normalizado env t) (conhecimento s))
      \<and> busca_respostas (texto_normalizado env t) (respostas s) = Some []"
  then show "fst (processar_mensagem env t uid s)
      = fst (processar_mensagem env t uid (s\<lparr>conhecimento := [], respostas := []\<rparr>))"
    by (simp add: processar_mensagem_escolhe escolher_resposta_def Let_def nao_def
        resposta_conhecimento_vazio split: option.splits)
next
  assume "http_get env t = Some (200, Some [])"
  then show "buscar_na_wikipedia env t = None"
    by (simp add: buscar_na_wikipedia_def)
next
  show "fst (processar_mensagem env t uid s) \<noteq> []"
    by (simp add: processar_mensagem_escolhe escolher_resposta_nao_vazia)
qed

text \<open>The curated entry \<open>oi\<close> with the empty reply: the message \<open>Oi\<close> is answered from
  the learned replies.\<close>

theorem resposta_vazia_e_falta_witness:
  "resposta_conhecimento (texto_normalizado env_exemplo ''Oi'') (conhecimento ia_resposta_vazia) = Some []
   \<and> fst (processar_mensagem env_exemplo ''Oi'' 7 ia_resposta_vazia)
      = fst (processar_mensagem env_exemplo ''Oi'' 7 (ia_resposta_vazia\<lparr>conhecimento := []\<rparr>))
   \<and> fst (processar_mensagem env_exemplo ''Oi'' 7 (ia_resposta_vazia\<lparr>conhecimento := []\<rparr>))
      = ''oi tudo bem''"
proof -
  have h: "resposta_conhecimento (texto_normalizado env_exemplo ''Oi'') (conhecimento ia_resposta_vazia) = Some []"
    by code_simp
  have v: "fst (processar_mensagem env_exemplo ''Oi'' 7 (ia_resposta_vazia\<lparr>conhecimento := []\<rparr>))
      = ''oi tudo bem''"
    by code_simp
  show ?thesis
    using h v resposta_vazia_e_falta [of env_exemplo "''Oi''" ia_resposta_vazia 7] by simp
qed

section \<open>Teaching, then asking\<close>

lemma update_primeira_chave:
  "AList.update k v al = pre @ (k, d) # post \<Longrightarrow> k \<notin> fst ` set pre \<Longrightarrow> d = v"
proof (induction al arbitrary: pre)
  case Nil
  then show ?case by (cases pre) auto
next
  case (Cons e al)
  show ?case
  proof (cases "fst e = k")
    case True
    then have "(k, v) # al = pre @ (k, d) # post" using Cons.prems(1) by simp
    then show ?thesis using Cons.prems(2) by (cases pre) auto
  next
    case False
    then have u: "e # AList.update k v al = pre @ (k, d) # post" using Cons.prems(1) by simp
    then obtain pre' where p: "pre = e # pre'" using False by (cases pre) auto
    then have "AList.update k v al = pre' @ (k, d) # post" using u by simp
    then show ?thesis using Cons.IH [of pre'] Cons.prems(2) p by simp
  qed
qed

lemma correspondencia_todas:
  assumes "palavras (lower p) \<subseteq> palavras tn"
  shows "correspondencia p tn = card (palavras (lower p))"
proof -
  have "palavras (lower p) \<inter> palavras tn = palavras (lower p)" using assms by blast
  then show ?thesis by (simp add: correspondencia_def)
qed

lemma palavras_card_pos: "palavras s \<noteq> {} \<Longrightarrow> 0 < card (palavras s)"
  by (simp add: palavras_def card_gt_0_iff)

text \<open>
  C8 (as amended). After \<open>adicionar_conhecimento\<close> stores a reply that is not empty under
  a pattern with at least one word, a message whose normalised text has every word of the
  lower-cased pattern gets exactly that reply, provided the entries before the pattern in
  the dictionary have fewer words in common with the message than the pattern has words,
  and the entries after it have no more.
\<close>

theorem ensinar_e_perguntar:
  assumes "conhecimento (adicionar_conhecimento env0 p resp s) = pre @ (p, d) # post"
    and "resp \<noteq> []"
    and "palavras (lower p) \<noteq> {}"
    and "palavras (lower p) \<subseteq> palavras (texto_normalizado env t)"
    and "\<forall>e \<in> set pre. correspondencia (fst e) (texto_normalizado env t) < card (palavras (lower p))"
    and "\<forall>e \<in> set post. correspondencia (fst e) (texto_normalizado env t) \<le> card (palavras (lower p))"
  shows "fst (processar_mensagem env t uid (adicionar_conhecimento env0 p resp s)) = resp"
proof -
  let ?tn = "texto_normalizado env t"
  let ?s = "adicionar_conhecimento env0 p resp s"
  have c: "correspondencia p ?tn = card (palavras (lower p))"
    using assms(4) by (rule correspondencia_todas)
  have pos: "0 < correspondencia p ?tn"
    using c palavras_card_pos [OF assms(3)] by simp
  have "p \<notin> fst ` set pre"
  proof
    assume "p \<in> fst ` set pre"
    then obtain e where "e \<in> set pre" "fst e = p" by auto
    then have "correspondencia p ?tn < card (palavras (lower p))" using assms(5) by auto
    then show False using c by simp
  qed
  moreover have "AList.update p \<lparr>resposta = resp, data_adicao = agora env0\<rparr> (conhecimento s)
      = pre @ (p, d) # post"
    using assms(1) by (simp add: adicionar_conhecimento_def)
  ultimately have d: "d = \<lparr>resposta = resp, data_adicao = agora env0\<rparr>"
    by (rule update_primeira_chave [rotated])
  have "busca_conhecimento ?tn (pre @ (p, d) # post) (0, None)
      = (correspondencia p ?tn, Some (resposta d))"
    using pos assms(5,6) c by (intro busca_primeiro_maximo) simp_all
  then have "resposta_conhecimento ?tn (conhecimento ?s) = Some resp"
    using assms(1) d by (simp add: resposta_conhecimento_def)
  then show ?thesis
    using assms(2) by (simp add: processar_mensagem_escolhe escolher_resposta_def nao_def)
qed

text \<open>
  Every word of the taught pattern \<open>qual sua linguagem\<close> is in the message, yet the reply
  is that of the entry \<open>qual sua linguagem favorita\<close>, which has four words in common.
\<close>

theorem ensinar_e_perguntar_counterexample:
  "palavras (lower ''qual sua linguagem'')
     \<subseteq> palavras (texto_normalizado env_letras ''qual sua linguagem favorita'')
   \<and> fst (processar_mensagem env_letras ''qual sua linguagem favorita'' 7
        (adicionar_conhecimento env_letras ''qual sua linguagem'' ''Sou feita em codigo''
          (adicionar_conhecimento env_letras ''qual sua linguagem favorita'' ''Python'' ia_vazia)))
      = ''Python''"
  by code_simp

text \<open>The pattern \<open>qual sua linguagem\<close> as the only entry, and the question of the
  example.\<close>

theorem ensinar_e_perguntar_witness:
  "texto_normalizado env_letras pergunta_exemplo = ''qual e a sua linguagem favorita''
   \<and> palavras (lower ''qual sua linguagem'') \<subseteq> palavras (texto_normalizado env_letras pergunta_exemplo)
   \<and> fst (processar_mensagem env_letras pergunta_exemplo 7
        (adicionar_conhecimento env_exemplo ''qual sua linguagem''
           (''Sou feita em c'' @ [CHR 0xF3] @ ''digo'') ia_vazia))
      = ''Sou feita em c'' @ [CHR 0xF3] @ ''digo''"
proof -
  let ?d = "\<lparr>resposta = ''Sou feita em c'' @ [CHR 0xF3] @ ''digo'', data_adicao = ''2024-01-01 12:00:00''\<rparr>"
  have n: "texto_normalizado env_letras pergunta_exemplo = ''qual e a sua linguagem favorita''"
    by code_simp
  have k: "conhecimento (adicionar_conhecimento env_exemplo ''qual sua linguagem''
           (''Sou feita em c'' @ [CHR 0xF3] @ ''digo'') ia_vazia) = [] @ (''qual sua linguagem'', ?d) # []"
    by code_simp
  have r: "''Sou feita em c'' @ [CHR 0xF3] @ ''digo'' \<noteq> []" by simp
  have w: "palavras (lower ''qual sua linguagem'') \<noteq> {}" by code_simp
  have i: "palavras (lower ''qual sua linguagem'') \<subseteq> palavras (texto_normalizado env_letras pergunta_exemplo)"
    by code_simp
  show ?thesis
    using n i ensinar_e_perguntar [OF k r w i, of 7] by simp
qed

section \<open>Scores and candidates\<close>

lemma atualizar_existente:
  "snd (atualizar_pontuacao resp tipo l) = (resp \<in> texto ` set l)"
  by (induction l) (auto split: prod.splits)

lemma atualizar_textos:
  "map texto (fst (atualizar_pontuacao resp tipo l)) = map texto l"
  by (induction l) (auto split: prod.splits)

lemma atualizar_find:
  "find (\<lambda>x. texto x = resp) (fst (atualizar_pontuacao resp tipo l))
   = map_option (\<lambda>x. x\<lparr>pontuacao := pontuacao x + variacao tipo\<rparr>)
       (find (\<lambda>x. texto x = resp) l)"
  by (induction l) (auto split: prod.splits)

lemma aprender_lista_textos:
  "map texto (aprender_lista resp tipo l)
   = (if resp \<in> texto ` set l then map texto l else map texto l @ [resp])"
  using atualizar_existente [of resp tipo l] atualizar_textos [of resp tipo l]
  by (auto simp: aprender_lista_def split: prod.splits)

lemma aprender_lista_distinct:
  "distinct (map texto l) \<Longrightarrow> distinct (map texto (aprender_lista resp tipo l))"
  by (auto simp: aprender_lista_textos)

lemma find_concatenada:
  "find P (xs @ ys) = (case find P xs of None \<Rightarrow> find P ys | Some x \<Rightarrow> Some x)"
  by (induction xs) auto

lemma find_nenhum: "resp \<notin> texto ` set l \<Longrightarrow> find (\<lambda>x. texto x = resp) l = None"
  by (auto simp: find_None_iff)

lemma find_algum:
  "resp \<in> texto ` set l \<Longrightarrow> \<exists>x. find (\<lambda>x. texto x = resp) l = Some x"
  by (induction l) auto

lemma aprender_lista_pontuacao:
  "map_option pontuacao (find (\<lambda>x. texto x = resp) (aprender_lista resp tipo l))
   = Some ((case map_option pontuacao (find (\<lambda>x. texto x = resp) l) of
              None \<Rightarrow> 0 | Some v \<Rightarrow> v) + variacao tipo)"
proof (cases "resp \<in> texto ` set l")
  case True
  then obtain x where x: "find (\<lambda>x. texto x = resp) l = Some x"
    using find_algum by blast
  have "aprender_lista resp tipo l = fst (atualizar_pontuacao resp tipo l)"
    using True atualizar_existente [of resp tipo l]
    by (auto simp: aprender_lista_def split: prod.splits)
  then show ?thesis using x by (simp add: atualizar_find)
next
  case False
  have n: "find (\<lambda>x. texto x = resp) l = None" using False by (rule find_nenhum)
  have "aprender_lista resp tipo l
      = fst (atualizar_pontuacao resp tipo l) @ [\<lparr>texto = resp, pontuacao = variacao tipo\<rparr>]"
    using False atualizar_existente [of resp tipo l]
    by (auto simp: aprender_lista_def split: prod.splits)
  then show ?thesis using n by (simp add: find_concatenada atualizar_find)
qed

lemma aprender_encontrada:
  assumes "find (\<lambda>(arquivo, conteudo). contido mid arquivo) (conversas s) = Some (arq, Some c)"
  shows "candidatas (aprender_com_feedback mid tipo s) (chave_aprendida c)
         = aprender_lista (conv_resposta c) tipo (candidatas s (chave_aprendida c))"
    and "k \<noteq> chave_aprendida c \<Longrightarrow> candidatas (aprender_com_feedback mid tipo s) k = candidatas s k"
    and "conversas (aprender_com_feedback mid tipo s) = conversas s"
proof -
  let ?k = "chave_aprendida c"
  let ?rs = "if ?k \<notin> fst ` set (respostas s) then AList.update ?k [] (respostas s) else respostas s"
  have m: "(case map_of ?rs ?k of None \<Rightarrow> [] | Some l \<Rightarrow> l) = candidatas s ?k"
  proof (cases "?k \<in> fst ` set (respostas s)")
    case True
    then show ?thesis by (simp add: candidatas_def)
  next
    case False
    then have "map_of (respostas s) ?k = None" by (simp add: map_of_eq_None_iff)
    then show ?thesis using False by (simp add: candidatas_def update_conv')
  qed
  have r: "respostas (aprender_com_feedback mid tipo s)
      = AList.update ?k (aprender_lista (conv_resposta c) tipo (candidatas s ?k)) ?rs"
    using assms m by (simp add: aprender_com_feedback_def Let_def)
  show "candidatas (aprender_com_feedback mid tipo s) ?k
         = aprender_lista (conv_resposta c) tipo (candidatas s ?k)"
    unfolding candidatas_def r by (simp add: update_conv' flip: candidatas_def)
  show "candidatas (aprender_com_feedback mid tipo s) k = candidatas s k" if "k \<noteq> ?k"
    unfolding candidatas_def r using that by (simp add: update_conv')
  show "conversas (aprender_com_feedback mid tipo s) = conversas s"
    using assms by (simp add: aprender_com_feedback_def Let_def)
qed

lemma aprender_conversas: "conversas (aprender_com_feedback mid tipo s) = conversas s"
  by (simp add: aprender_com_feedback_def Let_def split: option.splits prod.splits)

lemma update_elementos: "set (AList.update k v al) \<subseteq> insert (k, v) (set al)"
  by (induction al) auto

lemma candidatas_distinct:
  "respostas_sem_repeticao s \<Longrightarrow> distinct (map texto (candidatas s k))"
proof (cases "map_of (respostas s) k")
  case None
  then show ?thesis by (simp add: candidatas_def)
next
  case (Some l)
  assume "respostas_sem_repeticao s"
  moreover have "(k, l) \<in> set (respostas s)" using Some by (rule map_of_SomeD)
  ultimately have "distinct (map texto l)" by (auto simp: respostas_sem_repeticao_def)
  then show ?thesis using Some by (simp add: candidatas_def)
qed

lemma aprender_sem_repeticao:
  assumes "respostas_sem_repeticao s"
  shows "respostas_sem_repeticao (aprender_com_feedback mid tipo s)"
proof (cases "find (\<lambda>(arquivo, conteudo). contido mid arquivo) (conversas s)")
  case None
  then show ?thesis using assms by (simp add: aprender_com_feedback_def)
next
  case (Some e)
  obtain arq conteudo where e: "e = (arq, conteudo)" by (cases e)
  show ?thesis
  proof (cases conteudo)
    case None
    then show ?thesis using assms Some e by (simp add: aprender_com_feedback_def)
  next
    case (Some c)
    let ?k = "chave_aprendida c"
    let ?rs = "if ?k \<notin> fst ` set (respostas s) then AList.update ?k [] (respostas s) else respostas s"
    let ?l = "aprender_lista (conv_resposta c) tipo (case map_of ?rs ?k of None \<Rightarrow> [] | Some l \<Rightarrow> l)"
    have r: "respostas (aprender_com_feedback mid tipo s) = AList.update ?k ?l ?rs"
      using \<open>find _ _ = Some e\<close> e Some by (simp add: aprender_com_feedback_def Let_def)
    have d: "distinct (map fst ?rs)"
      using assms by (simp add: respostas_sem_repeticao_def distinct_update)
    have el: "\<forall>(k, l) \<in> set ?rs. distinct (map texto l)"
      using assms update_elementos [of ?k "[]" "respostas s"]
      by (auto simp: respostas_sem_repeticao_def)
    have "distinct (map texto (case map_of ?rs ?k of None \<Rightarrow> [] | Some l \<Rightarrow> l))"
    proof (cases "map_of ?rs ?k")
      case None
      then show ?thesis by simp
    next
      case (Some l)
      then have "(?k, l) \<in> set ?rs" by (rule map_of_SomeD)
      then show ?thesis using el Some by auto
    qed
    then have dl: "distinct (map texto ?l)" by (rule aprender_lista_distinct)
    have "distinct (map fst (AList.update ?k ?l ?rs))"
      using d by (rule distinct_update)
    moreover have "\<forall>(k, l) \<in> set (AList.update ?k ?l ?rs). distinct (map texto l)"
      using el dl update_elementos [of ?k ?l ?rs] by blast
    ultimately show ?thesis unfolding respostas_sem_repeticao_def r by simp
  qed
qed

lemma sem_repeticao_respostas:
  "respostas s' = respostas s \<Longrightarrow> respostas_sem_repeticao s' = respostas_sem_repeticao s"
  by (simp add: respostas_sem_repeticao_def)

lemma processar_mensagem_respostas:
  "respostas (snd (processar_mensagem env t uid s)) = respostas s"
  by (simp add: processar_mensagem_def registrar_conversa_def Let_def)

lemma adicionar_conhecimento_respostas:
  "respostas (adicionar_conhecimento env pergunta resp s) = respostas s"
  by (simp add: adicionar_conhecimento_def)

lemma processar_feedback_respostas:
  "respostas (processar_feedback dados uid s) = respostas s"
  by (simp add: processar_feedback_def registrar_feedback_def Let_def)

lemma executar_sem_repeticao:
  "respostas_sem_repeticao s \<Longrightarrow> respostas_sem_repeticao (executar e s)"
proof (cases e)
  case (Mensagem env t uid)
  then show "respostas_sem_repeticao s \<Longrightarrow> ?thesis"
    using sem_repeticao_respostas [OF processar_mensagem_respostas] by simp
next
  case (Ensino env pergunta resp)
  then show "respostas_sem_repeticao s \<Longrightarrow> ?thesis"
    using sem_repeticao_respostas [OF adicionar_conhecimento_respostas] by simp
next
  case (Botao dados uid)
  then show "respostas_sem_repeticao s \<Longrightarrow> ?thesis"
    using sem_repeticao_respostas [OF processar_feedback_respostas] by simp
next
  case (Aprendizado mid tipo)
  then show "respostas_sem_repeticao s \<Longrightarrow> ?thesis"
    by (simp add: aprender_sem_repeticao)
qed

lemma eventos_sem_repeticao:
  "respostas_sem_repeticao s \<Longrightarrow> respostas_sem_repeticao (fold executar eventos s)"
  by (induction eventos arbitrary: s) (simp_all add: executar_sem_repeticao)

lemma repetir_conversas:
  "conversas ((aprender_com_feedback mid tipo ^^ n) s) = conversas s"
  by (induction n) (simp_all add: aprender_conversas)

lemma repetir_sem_repeticao:
  "respostas_sem_repeticao s \<Longrightarrow>
   respostas_sem_repeticao ((aprender_com_feedback mid tipo ^^ n) s)"
  by (induction n) (simp_all add: aprender_sem_repeticao)

lemma pontuacao_apos:
  assumes "find (\<lambda>(arquivo, conteudo). contido mid arquivo) (conversas s) = Some (arq, Some c)"
  shows "pontuacao_de (aprender_com_feedback mid tipo s) (chave_aprendida c) (conv_resposta c)
         = Some ((case pontuacao_de s (chave_aprendida c) (conv_resposta c) of
                    None \<Rightarrow> 0 | Some v \<Rightarrow> v) + variacao tipo)"
  unfolding pontuacao_de_def aprender_encontrada(1) [OF assms]
  by (rule aprender_lista_pontuacao)

lemma repetir_positivo:
  assumes "find (\<lambda>(arquivo, conteudo). contido mid arquivo) (conversas s) = Some (arq, Some c)"
  shows "pontuacao_de ((aprender_com_feedback mid ''positivo'' ^^ Suc n) s)
           (chave_aprendida c) (conv_resposta c)
         = Some ((case pontuacao_de s (chave_aprendida c) (conv_resposta c) of
                    None \<Rightarrow> 0 | Some v \<Rightarrow> v) + of_nat (Suc n))"
proof (induction n)
  case 0
  show ?case using pontuacao_apos [OF assms, of "''positivo''"] by simp
next
  case (Suc n)
  let ?s = "(aprender_com_feedback mid ''positivo'' ^^ Suc n) s"
  have "find (\<lambda>(arquivo, conteudo). contido mid arquivo) (conversas ?s) = Some (arq, Some c)"
    using assms by (simp only: repetir_conversas)
  from pontuacao_apos [OF this, of "''positivo''"] Suc.IH
  show ?case by (simp add: algebra_simps)
qed

lemma um_por_texto:
  "distinct (map f l) \<Longrightarrow> r \<in> f ` set l \<Longrightarrow> length (filter (\<lambda>x. f x = r) l) = 1"
proof (induction l)
  case Nil
  then show ?case by simp
next
  case (Cons x l)
  show ?case
  proof (cases "f x = r")
    case True
    then have "r \<notin> f ` set l" using Cons.prems(1) by auto
    then have "filter (\<lambda>x. f x = r) l = []" by (auto simp: filter_empty_conv)
    then show ?thesis using True by simp
  next
    case False
    then show ?thesis using Cons by auto
  qed
qed

lemma pontuacao_de_presente:
  "pontuacao_de s k r = Some v \<Longrightarrow> r \<in> texto ` set (candidatas s k)"
  by (auto simp: pontuacao_de_def find_Some_iff)

text \<open>
  C6. When \<open>_aprender_com_feedback\<close> finds the conversation, the score of its reply under
  its key changes by exactly 1 for the feedback \<open>positivo\<close> and by exactly -1/2 for any
  other kind, with no bound applied; a reply that was not yet there starts at 1 or at
  -1/2.
\<close>

theorem pontuacao_apos_feedback:
  assumes "find (\<lambda>(arquivo, conteudo). contido mid arquivo) (conversas s) = Some (arq, Some c)"
  shows "(\<forall>v. pontuacao_de s (chave_aprendida c) (conv_resposta c) = Some v \<longrightarrow>
            pontuacao_de (aprender_com_feedback mid ''positivo'' s)
              (chave_aprendida c) (conv_resposta c) = Some (v + 1)
            \<and> (tipo \<noteq> ''positivo'' \<longrightarrow>
                pontuacao_de (aprender_com_feedback mid tipo s)
                  (chave_aprendida c) (conv_resposta c) = Some (v - 1 / 2)))
       \<and> (pontuacao_de s (chave_aprendida c) (conv_resposta c) = None \<longrightarrow>
            pontuacao_de (aprender_com_feedback mid ''positivo'' s)
              (chave_aprendida c) (conv_resposta c) = Some 1
            \<and> (tipo \<noteq> ''positivo'' \<longrightarrow>
                pontuacao_de (aprender_com_feedback mid tipo s)
                  (chave_aprendida c) (conv_resposta c) = Some (- (1 / 2))))"
  using pontuacao_apos [OF assms, of "''positivo''"] pontuacao_apos [OF assms, of tipo]
  by simp

text \<open>A reply of score 1: negative feedback leaves 1/2, positive feedback 2.\<close>

theorem pontuacao_apos_feedback_witness:
  "find (\<lambda>(arquivo, conteudo). contido ''12'' arquivo) (conversas ia_com_candidata)
     = Some (''conversa_7_20240101120000.json'',
             Some \<lparr>conv_user_id = 7, conv_timestamp = ''20240101120000'', conv_pergunta = ''Oi'',
                   conv_resposta = ''Ainda estou aprendendo sobre isso.''\<rparr>)
   \<and> pontuacao_de ia_com_candidata ''oi'' ''Ainda estou aprendendo sobre isso.'' = Some 1
   \<and> pontuacao_de (aprender_com_feedback ''12'' ''negativo'' ia_com_candidata)
        ''oi'' ''Ainda estou aprendendo sobre isso.'' = Some (1 / 2)
   \<and> pontuacao_de (aprender_com_feedback ''12'' ''positivo'' ia_com_candidata)
        ''oi'' ''Ainda estou aprendendo sobre isso.'' = Some 2"
proof -
  let ?c = "\<lparr>conv_user_id = 7, conv_timestamp = ''20240101120000'', conv_pergunta = ''Oi'',
                   conv_resposta = ''Ainda estou aprendendo sobre isso.''\<rparr>"
  have f: "find (\<lambda>(arquivo, conteudo). contido ''12'' arquivo) (conversas ia_com_candidata)
     = Some (''conversa_7_20240101120000.json'', Some ?c)"
    by code_simp
  have k: "chave_aprendida ?c = ''oi''" by code_simp
  have p: "pontuacao_de ia_com_candidata ''oi'' ''Ainda estou aprendendo sobre isso.'' = Some 1"
    by code_simp
  have t: "''negativo'' \<noteq> ''positivo''" by simp
  show ?thesis
    using f p t pontuacao_apos_feedback [OF f, of "''negativo''"] unfolding k by simp
qed

text \<open>
  C5. From learned replies with unique keys and no text twice under a key (the empty
  dictionary is such), every sequence of calls on the instance, learning steps among
  messages, lessons and button presses, leads to learned replies of the same kind.
  Feedback for a reply that is already under its key leaves the texts of the list as they
  were, and \<open>n + 1\<close> positive feedbacks for one conversation leave exactly one reply
  with its text, whose score has grown by \<open>n + 1\<close>.
\<close>

theorem candidatas_sem_repeticao:
  assumes "respostas_sem_repeticao s"
  shows "respostas_sem_repeticao (fold executar eventos s)
     \<and> (\<forall>mid tipo arq c.
          find (\<lambda>(arquivo, conteudo). contido mid arquivo) (conversas s) = Some (arq, Some c)
          \<and> conv_resposta c \<in> texto ` set (candidatas s (chave_aprendida c))
          \<longrightarrow> map texto (candidatas (aprender_com_feedback mid tipo s) (chave_aprendida c))
              = map texto (candidatas s (chave_aprendida c)))
     \<and> (\<forall>mid arq c n.
          find (\<lambda>(arquivo, conteudo). contido mid arquivo) (conversas s) = Some (arq, Some c)
          \<longrightarrow> pontuacao_de ((aprender_com_feedback mid ''positivo'' ^^ Suc n) s)
                (chave_aprendida c) (conv_resposta c)
              = Some ((case pontuacao_de s (chave_aprendida c) (conv_resposta c) of
                         None \<Rightarrow> 0 | Some v \<Rightarrow> v) + of_nat (Suc n))
            \<and> length (filter (\<lambda>x. texto x = conv_resposta c)
                 (candidatas ((aprender_com_feedback mid ''positivo'' ^^ Suc n) s)
                    (chave_aprendida c))) = 1)"
proof (intro conjI allI impI)
  show "respostas_sem_repeticao (fold executar eventos s)"
    using assms by (rule eventos_sem_repeticao)
next
  fix mid tipo arq c
  assume a: "find (\<lambda>(arquivo, conteudo). contido mid arquivo) (conversas s) = Some (arq, Some c)
          \<and> conv_resposta c \<in> texto ` set (candidatas s (chave_aprendida c))"
  then show "map texto (candidatas (aprender_com_feedback mid tipo s) (chave_aprendida c))
              = map texto (candidatas s (chave_aprendida c))"
    by (simp add: aprender_encontrada(1) aprender_lista_textos)
next
  fix mid arq c n
  assume f: "find (\<lambda>(arquivo, conteudo). contido mid arquivo) (conversas s) = Some (arq, Some c)"
  then show p: "pontuacao_de ((aprender_com_feedback mid ''positivo'' ^^ Suc n) s)
                (chave_aprendida c) (conv_resposta c)
              = Some ((case pontuacao_de s (chave_aprendida c) (conv_resposta c) of
                         None \<Rightarrow> 0 | Some v \<Rightarrow> v) + of_nat (Suc n))"
    by (rule repetir_positivo)
  have "distinct (map texto (candidatas ((aprender_com_feedback mid ''positivo'' ^^ Suc n) s)
                    (chave_aprendida c)))"
    using assms by (intro candidatas_distinct repetir_sem_repeticao)
  moreover have "conv_resposta c \<in> texto ` set
      (candidatas ((aprender_com_feedback mid ''positivo'' ^^ Suc n) s) (chave_aprendida c))"
    using p by (rule pontuacao_de_presente)
  ultimately show "length (filter (\<lambda>x. texto x = conv_resposta c)
                 (candidatas ((aprender_com_feedback mid ''positivo'' ^^ Suc n) s)
                    (chave_aprendida c))) = 1"
    by (rule um_por_texto)
qed

text \<open>The calls of the example leave one reply under \<open>oi\<close>, of score 1 - 1/2 + 1; and
  three positive feedbacks in a row leave one reply of score 3.\<close>

theorem candidatas_sem_repeticao_witness:
  "respostas_sem_repeticao ia_uma_conversa
   \<and> respostas_sem_repeticao (fold executar eventos_exemplo ia_uma_conversa)
   \<and> candidatas (fold executar eventos_exemplo ia_uma_conversa) ''oi''
      = [\<lparr>texto = ''Ainda estou aprendendo sobre isso.'', pontuacao = 3 / 2\<rparr>]
   \<and> pontuacao_de ((aprender_com_feedback ''12'' ''positivo'' ^^ 3) ia_uma_conversa)
        ''oi'' ''Ainda estou aprendendo sobre isso.'' = Some 3
   \<and> length (filter (\<lambda>x. texto x = ''Ainda estou aprendendo sobre isso.'')
        (candidatas ((aprender_com_feedback ''12'' ''positivo'' ^^ 3) ia_uma_conversa) ''oi'')) = 1"
proof -
  let ?c = "\<lparr>conv_user_id = 7, conv_timestamp = ''20240101120000'', conv_pergunta = ''Oi'',
                   conv_resposta = ''Ainda estou aprendendo sobre isso.''\<rparr>"
  have h: "respostas_sem_repeticao ia_uma_conversa" by code_simp
  have f: "find (\<lambda>(arquivo, conteudo). contido ''12'' arquivo) (conversas ia_uma_conversa)
     = Some (''conversa_7_20240101120000.json'', Some ?c)"
    by code_simp
  have k: "chave_aprendida ?c = ''oi''" by code_simp
  have p: "pontuacao_de ia_uma_conversa ''oi'' ''Ainda estou aprendendo sobre isso.'' = None"
    by code_simp
  have v: "candidatas (fold executar eventos_exemplo ia_uma_conversa) ''oi''
      = [\<lparr>texto = ''Ainda estou aprendendo sobre isso.'', pontuacao = 3 / 2\<rparr>]"
    by code_simp
  have n: "(3::nat) = Suc 2" by simp
  note t = candidatas_sem_repeticao [OF h, of eventos_exemplo]
  have a: "respostas_sem_repeticao (fold executar eventos_exemplo ia_uma_conversa)"
    using t by blast
  have b: "pontuacao_de ((aprender_com_feedback ''12'' ''positivo'' ^^ Suc 2) ia_uma_conversa)
                (chave_aprendida ?c) (conv_resposta ?c)
              = Some ((case pontuacao_de ia_uma_conversa (chave_aprendida ?c) (conv_resposta ?c) of
                         None \<Rightarrow> 0 | Some v \<Rightarrow> v) + of_nat (Suc 2))
            \<and> length (filter (\<lambda>x. texto x = conv_resposta ?c)
                 (candidatas ((aprender_com_feedback ''12'' ''positivo'' ^^ Suc 2) ia_uma_conversa)
                    (chave_aprendida ?c))) = 1"
    using t f by blast
  show ?thesis
    using h a v b p unfolding k n by simp
qed

section \<open>The feedback handler and the learned key\<close>

text \<open>The handler never touches the learned replies: of the two steps, only
  \<open>registrar_feedback\<close> is called.\<close>

lemma processar_feedback_so_registra:
  "processar_feedback dados uid s = s
   \<or> (\<exists>mid tipo. processar_feedback dados uid s = registrar_feedback mid uid tipo s)"
  by (auto simp: processar_feedback_def Let_def)

text \<open>
  C1 (the code at a failing input). The handler of the buttons, for the data
  \<open>feedback_positivo_12\<close> after the conversation of the example, adds the feedback row
  and leaves the learned replies empty, whereas \<open>_aprender_com_feedback\<close> for the same
  identifier would store the reply under \<open>oi\<close> with score 1. The next \<open>Oi\<close> is then
  answered from the default pool, not with the reply that got the positive feedback.
\<close>

theorem processar_feedback_nao_aprende:
  "feedback_db (processar_feedback ''feedback_positivo_12'' 7 ia_uma_conversa)
     = [\<lparr>mensagem_id = ''12'', fb_user_id = 7, tipo_feedback = ''positivo''\<rparr>]
   \<and> respostas (processar_feedback ''feedback_positivo_12'' 7 ia_uma_conversa) = []
   \<and> respostas (aprender_com_feedback ''12'' ''positivo'' ia_uma_conversa)
     = [(''oi'', [\<lparr>texto = ''Ainda estou aprendendo sobre isso.'', pontuacao = 1\<rparr>])]
   \<and> fst (processar_mensagem (env_exemplo\<lparr>sorteio := 2\<rparr>) ''Oi'' 7
          (processar_feedback ''feedback_positivo_12'' 7 ia_uma_conversa))
     = ''Poderia me ensinar mais sobre esse assunto?''
   \<and> fst (processar_mensagem (env_exemplo\<lparr>sorteio := 2\<rparr>) ''Oi'' 7
          (aprender_com_feedback ''12'' ''positivo'' ia_uma_conversa))
     = ''Ainda estou aprendendo sobre isso.''"
  by code_simp

text \<open>The normalised text of a recorded question is the transliteration of the key that
  learning stores for it: the two are equal exactly when the transliteration leaves the
  key as it is.\<close>

lemma chave_aprendida_normalizada:
  "texto_normalizado env (conv_pergunta c) = unidecode env (chave_aprendida c)"
  by (simp add: texto_normalizado_def chave_aprendida_def)

text \<open>
  C4 (the code at a failing input). For the recorded question \<open>Ol\<close> with U+00E1 the key
  stored by \<open>_aprender_com_feedback\<close> keeps the accent, while the normalised text of the
  same question is \<open>ola\<close>: asking the question again finds no learned reply. For the
  question \<open>Oi\<close>, without accent, the learned reply is found.
\<close>

theorem chave_aprendida_com_acento:
  "map fst (conversas ia_ola) = [''conversa_7_20240101120000.json'']
   \<and> map fst (respostas ia_ola) = [''ol'' @ [CHR 0xE1]]
   \<and> texto_normalizado env_letras pergunta_ola = ''ola''
   \<and> busca_respostas (texto_normalizado env_letras pergunta_ola) (respostas ia_ola) = None
   \<and> busca_respostas (texto_normalizado env_exemplo ''Oi'')
        (respostas (aprender_com_feedback ''12'' ''positivo'' ia_uma_conversa))
      = Some ''Ainda estou aprendendo sobre isso.''"
  by code_simp

end
